theory Spec2Isabelle
  imports Complex_Main "HOL-Library.Multiset"
begin

section \<open>The sequential-thinking engine of tools.py\<close>

text \<open>
  The development embeds the reasoning-chain engine of \<^verbatim>\<open>src/tools.py\<close>
  (\<^verbatim>\<open>_tokens\<close>, \<^verbatim>\<open>_similarity\<close>, the chain store, \<^verbatim>\<open>_add_thought\<close>,
  \<^verbatim>\<open>_format_thoughts\<close>, \<^verbatim>\<open>sequential_think\<close>, \<^verbatim>\<open>sequential_review\<close>) and the
  manager of \<^verbatim>\<open>src/backend/sequential_thinking_mongodb.py\<close>.

  Modelling decisions.
  \<^item> Text is ASCII: a Python \<^verbatim>\<open>str\<close> is a \<^typ>\<open>string\<close>; \<^verbatim>\<open>str.lower\<close> maps
    \<^verbatim>\<open>A-Z\<close> to \<^verbatim>\<open>a-z\<close>; the whitespace of \<^verbatim>\<open>str.split()\<close> and \<^verbatim>\<open>str.strip()\<close>
    is the ASCII part of Python's: codes 9 to 13, 28 to 31 and 32.
  \<^item> A thought is the dict built by \<^verbatim>\<open>_add_thought\<close>: a record of its six keys and the
    optional key \<^verbatim>\<open>parent\<close> as an option. Python's ints are \<^typ>\<open>int\<close>.
  \<^item> Similarity scores and the constant \<^verbatim>\<open>0.95\<close> are rationals. The quotient of two set
    sizes is the exact fraction; the threshold \<^verbatim>\<open>0.92\<close> is \<open>23/25\<close>. The correctly
    rounded float quotient exceeds the float \<^verbatim>\<open>0.92\<close> exactly when the fraction exceeds
    \<open>23/25\<close>, for every denominator below \<open>2^50\<close>.
  \<^item> The sentence-embedding model is a parameter: \<open>None\<close> when \<^verbatim>\<open>_embed is None\<close>,
    otherwise a function giving the cosine similarity of two texts, or \<open>None\<close> where
    \<^verbatim>\<open>encode\<close> raises. \<^verbatim>\<open>_semantic_hash\<close>, the clock and the uuid generator are
    parameters as well.
  \<^item> The store is explicit state: the documents of the MongoDB collection, whether the
    manager obtains a usable collection (\<open>mongo_up\<close>: the import succeeds, the client is
    connected and the handle passes the manager's test), and the \<^verbatim>\<open>.jsonl\<close> files.
    A call does not change \<open>mongo_up\<close>. A file is the list of the
    objects its lines decode to (\<^verbatim>\<open>json.loads\<close> inverts \<^verbatim>\<open>json.dumps\<close> on these dicts,
    and \<^verbatim>\<open>json.dumps\<close> escapes newlines, so one line holds one thought). Reads and
    writes of a file are taken to succeed.
  \<^item> An exception is a value: \<^verbatim>\<open>_add_thought\<close> returns the exception or the thought,
    together with the store as the call leaves it.
\<close>

subsection \<open>Strings\<close>

definition isspace :: "char \<Rightarrow> bool" where
  "isspace c \<longleftrightarrow> (let n = of_char c :: nat in (9 \<le> n \<and> n \<le> 13) \<or> (28 \<le> n \<and> n \<le> 32))"

definition lower_char :: "char \<Rightarrow> char" where
  "lower_char c = (let n = of_char c :: nat in if 65 \<le> n \<and> n \<le> 90 then char_of (n + 32) else c)"

definition lower :: "string \<Rightarrow> string" where
  "lower s = map lower_char s"

text \<open>\<^verbatim>\<open>str.split()\<close>: the maximal runs of non-whitespace, in order; the first argument is
  the word being read.\<close>

fun split_from :: "string \<Rightarrow> string \<Rightarrow> string list" where
  "split_from w [] = (if w = [] then [] else [w])"
| "split_from w (c # cs) =
     (if isspace c then (if w = [] then split_from [] cs else w # split_from [] cs)
      else split_from (w @ [c]) cs)"

definition split_ws :: "string \<Rightarrow> string list" where
  "split_ws s = split_from [] s"

definition strip :: "string \<Rightarrow> string" where
  "strip s = rev (dropWhile isspace (rev (dropWhile isspace s)))"

text \<open>\<^verbatim>\<open>k in s\<close> on strings: \<open>k\<close> occurs in \<open>s\<close> as a contiguous substring.\<close>

fun starts_with :: "string \<Rightarrow> string \<Rightarrow> bool" where
  "starts_with s [] = True"
| "starts_with [] (k # ks) = False"
| "starts_with (c # cs) (k # ks) = (c = k \<and> starts_with cs ks)"

fun contains :: "string \<Rightarrow> string \<Rightarrow> bool" where
  "contains [] k = (k = [])"
| "contains (c # cs) k = (starts_with (c # cs) k \<or> contains cs k)"

text \<open>\<^verbatim>\<open>str(n)\<close> for a natural number, and the format \<^verbatim>\<open>{n:02d}\<close> and \<^verbatim>\<open>{n}\<close> of an int.\<close>

definition digit_char :: "nat \<Rightarrow> char" where
  "digit_char d = char_of (48 + d)"

function digits :: "nat \<Rightarrow> string" where
  "digits n = (if n < 10 then [digit_char n] else digits (n div 10) @ [digit_char (n mod 10)])"
  by pat_completeness auto
termination
  by (relation "measure id") auto

declare digits.simps [simp del]

definition str_int :: "int \<Rightarrow> string" where
  "str_int i = (if i < 0 then CHR ''-'' # digits (nat (- i)) else digits (nat i))"

definition fmt_02d :: "int \<Rightarrow> string" where
  "fmt_02d i = (let s = str_int i in replicate (2 - length s) CHR ''0'' @ s)"

text \<open>\<^verbatim>\<open>int(s)\<close> on an ASCII string: surrounding whitespace, an optional sign, then decimal
  digits in groups separated by single underscores; \<open>None\<close> is \<^verbatim>\<open>ValueError\<close>.\<close>

definition isdigit :: "char \<Rightarrow> bool" where
  "isdigit c \<longleftrightarrow> (let n = of_char c :: nat in 48 \<le> n \<and> n \<le> 57)"

fun parse_digits :: "nat \<Rightarrow> bool \<Rightarrow> string \<Rightarrow> nat option" where
  "parse_digits acc after_digit [] = (if after_digit then Some acc else None)"
| "parse_digits acc after_digit (c # cs) =
     (if isdigit c then parse_digits (10 * acc + (of_char c - 48)) True cs
      else if c = CHR ''_'' \<and> after_digit then parse_digits acc False cs
      else None)"

definition parse_int :: "string \<Rightarrow> int option" where
  "parse_int s =
     (case strip s of
        [] \<Rightarrow> None
      | c # cs \<Rightarrow>
          if c = CHR ''-'' then map_option (\<lambda>n. - int n) (parse_digits 0 False cs)
          else if c = CHR ''+'' then map_option int (parse_digits 0 False cs)
          else map_option int (parse_digits 0 False (c # cs)))"

subsection \<open>Thoughts, configuration and the store\<close>

record thought =
  step :: int
  text_of :: string
  timestamp :: int
  uuid :: string
  semantic_id :: string
  confidence :: rat
  parent :: "int option"

text \<open>The process-wide parameters: the embedding model \<^verbatim>\<open>_embed\<close> and \<^verbatim>\<open>_semantic_hash\<close>.\<close>

record config =
  embed :: "(string \<Rightarrow> string \<Rightarrow> rat option) option"
  semantic_hash :: "string \<Rightarrow> string"

text \<open>What one call reads from outside: \<^verbatim>\<open>int(time.time())\<close> at the merge or at the
  creation of the new thought, the same at the update of a revise, and \<^verbatim>\<open>uuid.uuid4()\<close>.\<close>

record tick =
  now :: int
  now_revise :: int
  fresh_uuid :: string

record store =
  mongo_up :: bool
  mongo :: "string \<Rightarrow> thought list option"
  files :: "string \<Rightarrow> thought list option"

datatype py_exc = ValueError string | IndexError string

definition str_exc :: "py_exc \<Rightarrow> string" where
  "str_exc e = (case e of ValueError m \<Rightarrow> m | IndexError m \<Rightarrow> m)"

definition MAX_DEPTH :: nat where
  "MAX_DEPTH = 100"

definition MAX_TOKENS :: nat where
  "MAX_TOKENS = 50000"

definition duplicate_threshold :: rat where
  "duplicate_threshold = 23 / 25"

definition contradiction_keywords :: "string list" where
  "contradiction_keywords = [''however'', ''but'', ''actually'', ''wait'', ''no'']"

subsection \<open>Token counter and similarity\<close>

definition tokens :: "string \<Rightarrow> nat" where
  "tokens s = length (split_ws s)"

definition similarity :: "config \<Rightarrow> string \<Rightarrow> string \<Rightarrow> rat" where
  "similarity cfg a b =
     (case embed cfg of
        None \<Rightarrow>
          (let words_a = set (split_ws (lower a)); words_b = set (split_ws (lower b))
           in if words_a = {} \<or> words_b = {} then 0
              else of_nat (card (words_a \<inter> words_b)) / of_nat (card (words_a \<union> words_b)))
      | Some cos_sim \<Rightarrow> (case cos_sim a b of None \<Rightarrow> 0 | Some v \<Rightarrow> v))"

subsection \<open>The chain store\<close>

text \<open>\<^verbatim>\<open>SequentialThinkingManager.load_thoughts\<close> and \<^verbatim>\<open>save_thoughts\<close>.\<close>

definition manager_load_thoughts :: "store \<Rightarrow> string \<Rightarrow> thought list" where
  "manager_load_thoughts s sid =
     (if \<not> mongo_up s then []
      else case mongo s sid of None \<Rightarrow> [] | Some ts \<Rightarrow> sort_key step ts)"

definition manager_save_thoughts :: "store \<Rightarrow> string \<Rightarrow> thought list \<Rightarrow> store" where
  "manager_save_thoughts s sid ts =
     (if \<not> mongo_up s then s else s\<lparr>mongo := (mongo s)(sid \<mapsto> ts)\<rparr>)"

definition load_thoughts_from_file :: "store \<Rightarrow> string \<Rightarrow> thought list" where
  "load_thoughts_from_file s sid =
     (case files s sid of None \<Rightarrow> [] | Some ts \<Rightarrow> sort_key step ts)"

definition save_thoughts_to_file :: "store \<Rightarrow> string \<Rightarrow> thought list \<Rightarrow> store" where
  "save_thoughts_to_file s sid ts = s\<lparr>files := (files s)(sid \<mapsto> ts)\<rparr>"

definition load_thoughts :: "store \<Rightarrow> string \<Rightarrow> thought list" where
  "load_thoughts s sid =
     (let ts = manager_load_thoughts s sid
      in if ts \<noteq> [] then ts else load_thoughts_from_file s sid)"

definition save_thoughts :: "store \<Rightarrow> string \<Rightarrow> thought list \<Rightarrow> store" where
  "save_thoughts s sid ts = save_thoughts_to_file (manager_save_thoughts s sid ts) sid ts"

subsection \<open>The mutator\<close>

definition is_contradiction :: "string \<Rightarrow> bool" where
  "is_contradiction new_text =
     list_ex (\<lambda>keyword. contains (lower new_text) keyword) contradiction_keywords"

text \<open>The guard of the merge, after the budget checks.\<close>

definition should_merge :: "config \<Rightarrow> thought list \<Rightarrow> string \<Rightarrow> bool" where
  "should_merge cfg thoughts new_text \<longleftrightarrow>
     thoughts \<noteq> [] \<and> embed cfg \<noteq> None \<and> \<not> is_contradiction new_text \<and>
     similarity cfg (text_of (last thoughts)) new_text > duplicate_threshold"

definition merged_last :: "tick \<Rightarrow> thought list \<Rightarrow> string \<Rightarrow> thought" where
  "merged_last tk thoughts new_text =
     (last thoughts)\<lparr>text_of := text_of (last thoughts) @ [CHR 0x0A] @ ''[merged] '' @ new_text,
                     timestamp := now tk\<rparr>"

definition new_thought :: "config \<Rightarrow> tick \<Rightarrow> thought list \<Rightarrow> string \<Rightarrow> thought" where
  "new_thought cfg tk thoughts new_text =
     \<lparr>step = int (length thoughts), text_of = new_text, timestamp = now tk, uuid = fresh_uuid tk,
      semantic_id = semantic_hash cfg new_text, confidence = 19 / 20, parent = None\<rparr>"

definition valid_index :: "thought list \<Rightarrow> int \<Rightarrow> bool" where
  "valid_index thoughts i \<longleftrightarrow> 0 \<le> i \<and> i < int (length thoughts)"

definition current_tokens :: "thought list \<Rightarrow> nat" where
  "current_tokens thoughts = sum_list (map (\<lambda>t. tokens (text_of t)) thoughts)"

definition add_thought ::
  "config \<Rightarrow> tick \<Rightarrow> store \<Rightarrow> string \<Rightarrow> string \<Rightarrow> int option \<Rightarrow> string
     \<Rightarrow> (py_exc + thought) \<times> store" where
  "add_thought cfg tk s sid new_text branch_from operation =
     (let thoughts = load_thoughts s sid
      in if current_tokens thoughts + tokens new_text > MAX_TOKENS then
           (Inl (ValueError ''Token budget exceeded''), s)
         else if length thoughts \<ge> MAX_DEPTH then (Inl (ValueError ''Maximum depth reached''), s)
         else if should_merge cfg thoughts new_text then
           (let m = merged_last tk thoughts new_text
            in (Inr m, save_thoughts s sid (butlast thoughts @ [m])))
         else
           (let nt = new_thought cfg tk thoughts new_text;
                appended = (Inr nt, save_thoughts s sid (thoughts @ [nt]))
            in case branch_from of
                 None \<Rightarrow> appended
               | Some i \<Rightarrow>
                   if operation = ''append'' then appended
                   else if operation = ''revise'' then
                     (if valid_index thoughts i then
                        (Inr nt, save_thoughts s sid
                           (thoughts[nat i :=
                              (thoughts ! nat i)\<lparr>text_of := new_text, timestamp := now_revise tk\<rparr>]))
                      else (Inl (IndexError ''Invalid branch_from index''), s))
                   else if operation = ''branch'' then
                     (if valid_index thoughts i then
                        (Inr (nt\<lparr>parent := Some i\<rparr>),
                         save_thoughts s sid (thoughts @ [nt\<lparr>parent := Some i\<rparr>]))
                      else (Inl (IndexError ''Invalid branch_from index''), s))
                   else (Inl (ValueError ''Unknown operation''), s)))"

subsection \<open>The formatter and the public entry points\<close>

definition arrow :: string where
  "arrow = [CHR 0xE2, CHR 0x86, CHR 0x92]"

definition format_line :: "thought \<Rightarrow> string" where
  "format_line t =
     (case parent t of
        None \<Rightarrow> fmt_02d (step t) @ '': '' @ text_of t
      | Some p \<Rightarrow> ''  '' @ fmt_02d (step t) @ arrow @ str_int p @ '': '' @ text_of t)"

fun join_lines :: "string list \<Rightarrow> string" where
  "join_lines [] = []"
| "join_lines [l] = l"
| "join_lines (l # ls) = l @ [CHR 0x0A] @ join_lines ls"

definition format_thoughts :: "store \<Rightarrow> string \<Rightarrow> string" where
  "format_thoughts s sid =
     (let thoughts = load_thoughts s sid
      in if thoughts = [] then ''No thoughts recorded yet.''
         else join_lines (map format_line thoughts))"

definition sequential_think ::
  "config \<Rightarrow> tick \<Rightarrow> store \<Rightarrow> string \<Rightarrow> string \<Rightarrow> string \<Rightarrow> string \<Rightarrow> string \<times> store" where
  "sequential_think cfg tk s thought sid branch_from operation =
     (if strip thought = [] then (''Please provide a non-empty thought.'', s)
      else if branch_from \<noteq> ''None'' \<and> parse_int branch_from = None then
        (''Invalid branch_from value. Use integer or '' @ [CHR 0x27] @ ''None'' @ [CHR 0x27] @ ''.'', s)
      else
        (let branch_from_int = (if branch_from \<noteq> ''None'' then parse_int branch_from else None)
         in case add_thought cfg tk s sid (strip thought) branch_from_int operation of
              (Inl e, s') \<Rightarrow> (''Error in sequential thinking: '' @ str_exc e, s')
            | (Inr t, s') \<Rightarrow> (format_thoughts s' sid, s')))"

definition sequential_review :: "store \<Rightarrow> string \<Rightarrow> bool \<Rightarrow> string \<times> store" where
  "sequential_review s sid clear =
     (if clear then (''Session '' @ [CHR 0x27] @ sid @ [CHR 0x27] @ '' cleared.'', s\<lparr>files := (files s)(sid := None)\<rparr>)
      else (format_thoughts s sid, s))"

subsection \<open>Vocabulary of the statements\<close>

text \<open>Both budget checks of \<^verbatim>\<open>_add_thought\<close> pass.\<close>

definition within_budgets :: "thought list \<Rightarrow> string \<Rightarrow> bool" where
  "within_budgets thoughts new_text \<longleftrightarrow>
     current_tokens thoughts + tokens new_text \<le> MAX_TOKENS \<and> length thoughts < MAX_DEPTH"

text \<open>The Jaccard similarity as the specification words it: over the lowercased,
  whitespace-tokenized word sets, 0 if either set is empty.\<close>

definition jaccard_spec :: "string \<Rightarrow> string \<Rightarrow> rat" where
  "jaccard_spec a b =
     (if set (split_ws (lower a)) = {} \<or> set (split_ws (lower b)) = {} then 0
      else Fract (int (card (set (split_ws (lower a)) \<inter> set (split_ws (lower b)))))
                 (int (card (set (split_ws (lower a)) \<union> set (split_ws (lower b))))))"

text \<open>A contradiction marker as the specification words it: one of the keywords occurs
  in the lowercased text as a whole word, that is, with no letter, digit or underscore
  directly before or after it. The first argument of \<open>occurs_as_word\<close> says whether the
  character before the position read is a word character.\<close>

definition is_word_char :: "char \<Rightarrow> bool" where
  "is_word_char c \<longleftrightarrow>
     (let n = of_char c :: nat
      in (48 \<le> n \<and> n \<le> 57) \<or> (65 \<le> n \<and> n \<le> 90) \<or> (97 \<le> n \<and> n \<le> 122) \<or> n = 95)"

fun occurs_as_word :: "bool \<Rightarrow> string \<Rightarrow> string \<Rightarrow> bool" where
  "occurs_as_word after_word [] k = False"
| "occurs_as_word after_word (c # cs) k =
     ((\<not> after_word \<and> starts_with (c # cs) k \<and>
       (case drop (length k) (c # cs) of [] \<Rightarrow> True | d # ds \<Rightarrow> \<not> is_word_char d)) \<or>
      occurs_as_word (is_word_char c) cs k)"

definition whole_word_marker :: "string \<Rightarrow> bool" where
  "whole_word_marker new_text \<longleftrightarrow>
     list_ex (occurs_as_word False (lower new_text)) contradiction_keywords"



subsection \<open>Example inputs\<close>

definition no_model :: config where
  "no_model = \<lparr>embed = None, semantic_hash = (\<lambda>t. ''0'')\<rparr>"

text \<open>A model under which a text has cosine similarity 1 to itself.\<close>

definition a_model :: config where
  "a_model = \<lparr>embed = Some (\<lambda>a b. Some (if a = b then 1 else 0)), semantic_hash = (\<lambda>t. ''0'')\<rparr>"

definition tick1 :: tick where
  "tick1 = \<lparr>now = 1700000000, now_revise = 1700000001, fresh_uuid = ''u1''\<rparr>"

definition tick2 :: tick where
  "tick2 = \<lparr>now = 1700000060, now_revise = 1700000061, fresh_uuid = ''u2''\<rparr>"


definition a_thought :: "int \<Rightarrow> string \<Rightarrow> thought" where
  "a_thought i t =
     \<lparr>step = i, text_of = t, timestamp = 1600000000, uuid = ''u0'', semantic_id = ''0'',
      confidence = 19 / 20, parent = None\<rparr>"

definition file_only :: "(string \<Rightarrow> thought list option) \<Rightarrow> store" where
  "file_only fs = \<lparr>mongo_up = False, mongo = (\<lambda>sid. None), files = fs\<rparr>"

definition mirrored :: "(string \<Rightarrow> thought list option) \<Rightarrow> store" where
  "mirrored docs = \<lparr>mongo_up = True, mongo = docs, files = docs\<rparr>"

definition full_chain :: "thought list" where
  "full_chain = map (\<lambda>i. a_thought (int i) ''idea'') [0..<100]"

definition full_store :: store where
  "full_store = file_only ((\<lambda>sid. None)(''s1'' \<mapsto> full_chain))"

definition two_chain :: "thought list" where
  "two_chain = [a_thought 0 ''alpha'', a_thought 1 ''beta'']"

definition two_store :: store where
  "two_store = mirrored ((\<lambda>sid. None)(''s1'' \<mapsto> two_chain))"



definition one_store :: store where
  "one_store = file_only ((\<lambda>sid. None)(''s1'' \<mapsto> [a_thought 0 ''Check the cache'']))"

definition normal_store :: store where
  "normal_store = mirrored ((\<lambda>sid. None)(''s1'' \<mapsto> [a_thought 0 ''this looks normal'']))"

text \<open>A chain whose only text has 50000 tokens.\<close>

definition long_text :: string where
  "long_text = concat (replicate 50000 ''a '')"

definition wordy_store :: store where
  "wordy_store = file_only ((\<lambda>sid. None)(''s1'' \<mapsto> [a_thought 0 long_text]))"

section \<open>Properties\<close>

subsection \<open>The store\<close>

lemma sorted_manager_load: "sorted (map step (manager_load_thoughts s sid))"
  by (simp add: manager_load_thoughts_def split: option.split)

lemma sorted_file_load: "sorted (map step (load_thoughts_from_file s sid))"
  by (simp add: load_thoughts_from_file_def split: option.split)

lemma sorted_load_thoughts: "sorted (map step (load_thoughts s sid))"
  by (simp add: load_thoughts_def Let_def sorted_manager_load sorted_file_load)

text \<open>What was saved is what is loaded next, in step order, from whichever backend answers.\<close>

lemma load_save_thoughts: "load_thoughts (save_thoughts s sid ts) sid = sort_key step ts"
  by (simp add: load_thoughts_def save_thoughts_def save_thoughts_to_file_def
      manager_save_thoughts_def manager_load_thoughts_def load_thoughts_from_file_def Let_def)

lemma load_save_sorted:
  "sorted (map step ts) \<Longrightarrow> load_thoughts (save_thoughts s sid ts) sid = ts"
  by (simp add: load_save_thoughts sort_key_id_if_sorted)



subsection \<open>The mutator, case by case\<close>

lemma add_thought_over_tokens:
  "MAX_TOKENS < current_tokens (load_thoughts s sid) + tokens new_text \<Longrightarrow>
   add_thought cfg tk s sid new_text bf operation = (Inl (ValueError ''Token budget exceeded''), s)"
  by (simp add: add_thought_def Let_def)

lemma add_thought_at_depth:
  "current_tokens (load_thoughts s sid) + tokens new_text \<le> MAX_TOKENS \<Longrightarrow>
   MAX_DEPTH \<le> length (load_thoughts s sid) \<Longrightarrow>
   add_thought cfg tk s sid new_text bf operation = (Inl (ValueError ''Maximum depth reached''), s)"
  by (simp add: add_thought_def Let_def)

lemma add_thought_merge:
  "within_budgets (load_thoughts s sid) new_text \<Longrightarrow>
   should_merge cfg (load_thoughts s sid) new_text \<Longrightarrow>
   add_thought cfg tk s sid new_text bf operation =
     (Inr (merged_last tk (load_thoughts s sid) new_text),
      save_thoughts s sid
        (butlast (load_thoughts s sid) @ [merged_last tk (load_thoughts s sid) new_text]))"
  by (simp add: add_thought_def Let_def within_budgets_def)

lemma add_thought_append:
  "within_budgets (load_thoughts s sid) new_text \<Longrightarrow>
   \<not> should_merge cfg (load_thoughts s sid) new_text \<Longrightarrow>
   operation = ''append'' \<or> bf = None \<Longrightarrow>
   add_thought cfg tk s sid new_text bf operation =
     (Inr (new_thought cfg tk (load_thoughts s sid) new_text),
      save_thoughts s sid
        (load_thoughts s sid @ [new_thought cfg tk (load_thoughts s sid) new_text]))"
  by (auto simp add: add_thought_def Let_def within_budgets_def split: option.split)

lemma add_thought_revise:
  "within_budgets (load_thoughts s sid) new_text \<Longrightarrow>
   \<not> should_merge cfg (load_thoughts s sid) new_text \<Longrightarrow>
   valid_index (load_thoughts s sid) i \<Longrightarrow>
   add_thought cfg tk s sid new_text (Some i) ''revise'' =
     (Inr (new_thought cfg tk (load_thoughts s sid) new_text),
      save_thoughts s sid
        ((load_thoughts s sid)[nat i :=
           (load_thoughts s sid ! nat i)\<lparr>text_of := new_text, timestamp := now_revise tk\<rparr>]))"
  by (simp add: add_thought_def Let_def within_budgets_def)


lemma add_thought_invalid_index:
  "within_budgets (load_thoughts s sid) new_text \<Longrightarrow>
   \<not> should_merge cfg (load_thoughts s sid) new_text \<Longrightarrow>
   operation = ''revise'' \<or> operation = ''branch'' \<Longrightarrow>
   \<not> valid_index (load_thoughts s sid) i \<Longrightarrow>
   add_thought cfg tk s sid new_text (Some i) operation =
     (Inl (IndexError ''Invalid branch_from index''), s)"
  by (auto simp add: add_thought_def Let_def within_budgets_def)

lemma add_thought_raises:
  "fst (add_thought cfg tk s sid new_text bf operation) = Inl e \<Longrightarrow>
   snd (add_thought cfg tk s sid new_text bf operation) = s \<and>
   e \<in> {ValueError ''Token budget exceeded'', ValueError ''Maximum depth reached'',
        IndexError ''Invalid branch_from index'', ValueError ''Unknown operation''}"
  by (auto simp add: add_thought_def Let_def split: if_splits option.splits)

subsection \<open>The example stores\<close>

lemmas string_defs = split_ws_def isspace_def lower_def lower_char_def strip_def tokens_def

lemma length_full_chain: "length full_chain = 100"
  by (simp add: full_chain_def)

lemma sorted_full_chain: "sorted (map step full_chain)"
  by (simp add: full_chain_def a_thought_def comp_def sorted_map)

lemma current_tokens_full_chain: "current_tokens full_chain = 100"
  by (simp add: full_chain_def current_tokens_def a_thought_def comp_def sum_list_triv string_defs)

lemma load_full_store: "load_thoughts full_store ''s1'' = full_chain"
  by (simp add: full_store_def file_only_def load_thoughts_def manager_load_thoughts_def
      load_thoughts_from_file_def sort_key_id_if_sorted sorted_full_chain)

lemma load_two_store: "load_thoughts two_store ''s1'' = two_chain"
  by (simp add: two_store_def mirrored_def load_thoughts_def manager_load_thoughts_def
      two_chain_def a_thought_def)

lemma split_from_repeated: "split_from [] (concat (replicate n ''a '')) = replicate n ''a''"
  by (induction n) (simp_all add: isspace_def)

lemma tokens_long_text: "tokens long_text = 50000"
  by (simp add: tokens_def split_ws_def long_text_def split_from_repeated)

lemma load_wordy_store: "load_thoughts wordy_store ''s1'' = [a_thought 0 long_text]"
  by (simp add: wordy_store_def file_only_def load_thoughts_def manager_load_thoughts_def
      load_thoughts_from_file_def)

subsection \<open>Budget checks\<close>




subsection \<open>Rejections\<close>

lemma parse_int_7: "parse_int ''7'' = Some 7"
  by (simp add: parse_int_def strip_def isspace_def isdigit_def)

text \<open>
  Claim C6. Every rejected mutation is atomic. For a non-blank thought and a well-formed
  \<^verbatim>\<open>branch_from\<close>: when the call exceeds the token budget, or the chain is at the depth
  limit, or a revise or branch that is not merged names an out-of-range index, then
  \<^verbatim>\<open>_add_thought\<close> raises, \<^verbatim>\<open>sequential_think\<close> returns the descriptive string
  \<^verbatim>\<open>Error in sequential thinking: ...\<close> instead of raising, and the store (so the
  persisted chain) is what it was.
\<close>

theorem rejected_mutation_atomic:
  assumes nonblank: "strip thought \<noteq> []"
      and parsed: "(branch_from = ''None'' \<and> bf = None) \<or>
                   (branch_from \<noteq> ''None'' \<and> parse_int branch_from = bf \<and> bf \<noteq> None)"
      and rejected:
        "MAX_TOKENS < current_tokens (load_thoughts s sid) + tokens (strip thought) \<or>
         MAX_DEPTH \<le> length (load_thoughts s sid) \<or>
         (\<not> should_merge cfg (load_thoughts s sid) (strip thought) \<and>
          operation \<in> {''revise'', ''branch''} \<and>
          (\<exists>i. bf = Some i \<and> \<not> valid_index (load_thoughts s sid) i))"
  shows "\<exists>e. fst (add_thought cfg tk s sid (strip thought) bf operation) = Inl e \<and>
             e \<in> {ValueError ''Token budget exceeded'', ValueError ''Maximum depth reached'',
                  IndexError ''Invalid branch_from index''} \<and>
             sequential_think cfg tk s thought sid branch_from operation =
               (''Error in sequential thinking: '' @ str_exc e, s) \<and>
             load_thoughts (snd (sequential_think cfg tk s thought sid branch_from operation)) sid =
               load_thoughts s sid"
proof -
  let ?xs = "load_thoughts s sid"
  let ?r = "add_thought cfg tk s sid (strip thought) bf operation"
  have "\<exists>e. ?r = (Inl e, s) \<and>
          e \<in> {ValueError ''Token budget exceeded'', ValueError ''Maximum depth reached'',
               IndexError ''Invalid branch_from index''}"
  proof (cases "MAX_TOKENS < current_tokens ?xs + tokens (strip thought)")
    case True
    then show ?thesis by (simp add: add_thought_over_tokens)
  next
    case tok: False
    show ?thesis
    proof (cases "MAX_DEPTH \<le> length ?xs")
      case True
      with tok show ?thesis by (simp add: add_thought_at_depth)
    next
      case False
      with tok have w: "within_budgets ?xs (strip thought)"
        by (simp add: within_budgets_def)
      from rejected tok False obtain i where
        "\<not> should_merge cfg ?xs (strip thought)" "operation = ''revise'' \<or> operation = ''branch''"
        "bf = Some i" "\<not> valid_index ?xs i"
        by auto
      with w show ?thesis by (simp add: add_thought_invalid_index)
    qed
  qed
  then obtain e where r: "?r = (Inl e, s)"
    and e: "e \<in> {ValueError ''Token budget exceeded'', ValueError ''Maximum depth reached'',
                 IndexError ''Invalid branch_from index''}"
    by blast
  have "sequential_think cfg tk s thought sid branch_from operation =
          (''Error in sequential thinking: '' @ str_exc e, s)"
    using nonblank parsed r by (auto simp add: sequential_think_def)
  with r e show ?thesis by simp
qed

theorem rejected_mutation_atomic_witness:
  "sequential_think a_model tick1 two_store '' try again '' ''s1'' ''7'' ''revise'' =
     (''Error in sequential thinking: Invalid branch_from index'', two_store) \<and>
   sequential_think a_model tick1 full_store ''one more'' ''s1'' ''None'' ''append'' =
     (''Error in sequential thinking: Maximum depth reached'', full_store) \<and>
   sequential_think a_model tick1 wordy_store ''one more'' ''s1'' ''None'' ''append'' =
     (''Error in sequential thinking: Token budget exceeded'', wordy_store)"
proof -
  have o: "MAX_TOKENS < current_tokens (load_thoughts wordy_store ''s1'') + tokens ''one more''"
    by (simp add: load_wordy_store current_tokens_def a_thought_def tokens_long_text MAX_TOKENS_def)
      (simp add: tokens_def split_ws_def isspace_def)
  have c: "add_thought a_model tick1 wordy_store ''s1'' ''one more'' None ''append'' =
             (Inl (ValueError ''Token budget exceeded''), wordy_store)"
    using o by (simp add: add_thought_over_tokens)
  have s1: "strip '' try again '' = ''try again''" and s2: "strip ''one more'' = ''one more''"
    by (simp_all add: strip_def isspace_def)
  have nm: "\<not> should_merge a_model (load_thoughts two_store ''s1'') ''try again''"
    by (simp add: should_merge_def load_two_store two_chain_def a_thought_def similarity_def
        a_model_def duplicate_threshold_def)
  have nv: "\<not> valid_index (load_thoughts two_store ''s1'') 7"
    by (simp add: valid_index_def load_two_store two_chain_def)
  have w: "within_budgets (load_thoughts two_store ''s1'') ''try again''"
    by (simp add: within_budgets_def load_two_store two_chain_def current_tokens_def a_thought_def
        MAX_TOKENS_def MAX_DEPTH_def string_defs)
  have d: "MAX_DEPTH \<le> length (load_thoughts full_store ''s1'')"
    by (simp add: load_full_store length_full_chain MAX_DEPTH_def)
  have t: "\<not> MAX_TOKENS < current_tokens (load_thoughts full_store ''s1'') + tokens ''one more''"
    by (simp add: load_full_store current_tokens_full_chain MAX_TOKENS_def string_defs)
  have a: "add_thought a_model tick1 two_store ''s1'' ''try again'' (Some 7) ''revise'' =
             (Inl (IndexError ''Invalid branch_from index''), two_store)"
    using w nm nv by (simp add: add_thought_invalid_index)
  have b: "add_thought a_model tick1 full_store ''s1'' ''one more'' None ''append'' =
             (Inl (ValueError ''Maximum depth reached''), full_store)"
    using t d by (simp add: add_thought_at_depth)
  show ?thesis
    using rejected_mutation_atomic
      [of "'' try again ''" "''7''" "Some 7" two_store "''s1''" a_model "''revise''" tick1]
      rejected_mutation_atomic
      [of "''one more''" "''None''" None full_store "''s1''" a_model "''append''" tick1]
      rejected_mutation_atomic
      [of "''one more''" "''None''" None wordy_store "''s1''" a_model "''append''" tick1]
      s1 s2 nm nv d o parse_int_7 a b c
    by (simp add: str_exc_def)
qed

subsection \<open>Runs of appends\<close>








subsection \<open>Revise and merge\<close>

lemma map_step_revise:
  "k < length xs \<Longrightarrow> map step (xs[k := (xs ! k)\<lparr>text_of := a, timestamp := b\<rparr>]) = map step xs"
  by (simp add: map_update list_update_same_conv)

lemma map_step_merge:
  "xs \<noteq> [] \<Longrightarrow> map step (butlast xs @ [(last xs)\<lparr>text_of := a, timestamp := b\<rparr>]) = map step xs"
  by (metis (no_types, lifting) append_butlast_last_id list.simps(8,9) map_append
      thought.select_convs(1) thought.surjective thought.update_convs(2,3))

lemma map_parent_merge:
  "xs \<noteq> [] \<Longrightarrow> map parent (butlast xs @ [(last xs)\<lparr>text_of := a, timestamp := b\<rparr>]) = map parent xs"
proof -
  assume "xs \<noteq> []"
  then have "map parent xs = map parent (butlast xs @ [last xs])" by simp
  also have "\<dots> = map parent (butlast xs @ [(last xs)\<lparr>text_of := a, timestamp := b\<rparr>])" by simp
  finally show ?thesis by simp
qed

text \<open>
  Claim C7, as stated, fails: the duplicate merge comes before the dispatch. A revise of
  entry 0 whose text the model scores as a duplicate of the last entry leaves entry 0 as it
  was and changes the text and timestamp of entry 1.
\<close>

theorem revise_frame_counterexample:
  "valid_index (load_thoughts two_store ''s1'') 0 \<and>
   load_thoughts two_store ''s1'' = [a_thought 0 ''alpha'', a_thought 1 ''beta''] \<and>
   load_thoughts (snd (add_thought a_model tick1 two_store ''s1'' ''beta'' (Some 0) ''revise'')) ''s1'' =
     [a_thought 0 ''alpha'',
      (a_thought 1 ''beta'')\<lparr>text_of := ''beta'' @ [CHR 0x0A] @ ''[merged] beta'',
                               timestamp := 1700000000\<rparr>]"
proof -
  have l: "load_thoughts two_store ''s1'' = [a_thought 0 ''alpha'', a_thought 1 ''beta'']"
    by (simp add: load_two_store two_chain_def)
  have w: "within_budgets (load_thoughts two_store ''s1'') ''beta''"
    by (simp add: l within_budgets_def current_tokens_def a_thought_def MAX_TOKENS_def
        MAX_DEPTH_def string_defs)
  have m: "should_merge a_model (load_thoughts two_store ''s1'') ''beta''"
    by (simp add: l should_merge_def a_model_def a_thought_def is_contradiction_def
        contradiction_keywords_def similarity_def duplicate_threshold_def lower_def lower_char_def)
  show ?thesis
    unfolding add_thought_merge [OF w m] l
    by (simp add: load_save_thoughts merged_last_def a_thought_def tick1_def valid_index_def)
qed

text \<open>
  Claim C7, amended. For every revise with a valid existing index that passes the budget
  checks and is not merged into the last entry as a duplicate, the chain loaded afterwards
  has the same length, the entry at the index has the new text and the time of the update
  and is otherwise as before (so its step, uuid and parent are unchanged), and every other
  entry is unchanged.
\<close>

theorem revise_frame:
  assumes w: "within_budgets (load_thoughts s sid) new_text"
      and nm: "\<not> should_merge cfg (load_thoughts s sid) new_text"
      and v: "valid_index (load_thoughts s sid) i"
  shows "length (load_thoughts (snd (add_thought cfg tk s sid new_text (Some i) ''revise'')) sid) =
           length (load_thoughts s sid) \<and>
         load_thoughts (snd (add_thought cfg tk s sid new_text (Some i) ''revise'')) sid ! nat i =
           (load_thoughts s sid ! nat i)\<lparr>text_of := new_text, timestamp := now_revise tk\<rparr> \<and>
         step (load_thoughts (snd (add_thought cfg tk s sid new_text (Some i) ''revise'')) sid ! nat i) =
           step (load_thoughts s sid ! nat i) \<and>
         uuid (load_thoughts (snd (add_thought cfg tk s sid new_text (Some i) ''revise'')) sid ! nat i) =
           uuid (load_thoughts s sid ! nat i) \<and>
         parent (load_thoughts (snd (add_thought cfg tk s sid new_text (Some i) ''revise'')) sid ! nat i) =
           parent (load_thoughts s sid ! nat i) \<and>
         (\<forall>j < length (load_thoughts s sid). j \<noteq> nat i \<longrightarrow>
            load_thoughts (snd (add_thought cfg tk s sid new_text (Some i) ''revise'')) sid ! j =
              load_thoughts s sid ! j)"
proof -
  let ?xs = "load_thoughts s sid"
  let ?ys = "?xs[nat i := (?xs ! nat i)\<lparr>text_of := new_text, timestamp := now_revise tk\<rparr>]"
  have k: "nat i < length ?xs"
    using v unfolding valid_index_def by linarith
  have "sorted (map step ?ys)"
    using k by (simp only: map_step_revise sorted_load_thoughts)
  then have "load_thoughts (save_thoughts s sid ?ys) sid = ?ys"
    by (rule load_save_sorted)
  then have "load_thoughts (snd (add_thought cfg tk s sid new_text (Some i) ''revise'')) sid = ?ys"
    by (simp add: add_thought_revise [OF w nm v])
  then show ?thesis
    using k by simp
qed


theorem revise_frame_witness:
  "within_budgets (load_thoughts two_store ''s1'') ''gamma'' \<and>
   \<not> should_merge a_model (load_thoughts two_store ''s1'') ''gamma'' \<and>
   valid_index (load_thoughts two_store ''s1'') 0 \<and>
   load_thoughts (snd (add_thought a_model tick1 two_store ''s1'' ''gamma'' (Some 0) ''revise'')) ''s1'' ! 0 =
     (a_thought 0 ''alpha'')\<lparr>text_of := ''gamma'', timestamp := 1700000001\<rparr> \<and>
   load_thoughts (snd (add_thought a_model tick1 two_store ''s1'' ''gamma'' (Some 0) ''revise'')) ''s1'' ! 1 =
     a_thought 1 ''beta''"
proof -
  have l: "load_thoughts two_store ''s1'' = [a_thought 0 ''alpha'', a_thought 1 ''beta'']"
    by (simp add: load_two_store two_chain_def)
  have w: "within_budgets (load_thoughts two_store ''s1'') ''gamma''"
    by (simp add: l within_budgets_def current_tokens_def a_thought_def MAX_TOKENS_def
        MAX_DEPTH_def string_defs)
  have nm: "\<not> should_merge a_model (load_thoughts two_store ''s1'') ''gamma''"
    by (simp add: l should_merge_def a_model_def a_thought_def similarity_def
        duplicate_threshold_def)
  have v: "valid_index (load_thoughts two_store ''s1'') 0"
    by (simp add: l valid_index_def)
  show ?thesis
    using revise_frame [OF w nm v, of tick1] w nm v
    by (simp add: l tick1_def)
qed


text \<open>
  Claim C10, as stated, fails: the budget checks come before the duplicate check. On a chain
  of 100 entries a text that the model scores as a duplicate of the last entry, with no
  contradiction keyword, is rejected and not merged.
\<close>

theorem merge_before_dispatch_counterexample:
  "load_thoughts full_store ''s1'' \<noteq> [] \<and> embed a_model \<noteq> None \<and> \<not> is_contradiction ''idea'' \<and>
   similarity a_model (text_of (last (load_thoughts full_store ''s1''))) ''idea'' > duplicate_threshold \<and>
   add_thought a_model tick1 full_store ''s1'' ''idea'' None ''append'' =
     (Inl (ValueError ''Maximum depth reached''), full_store)"
proof -
  have la: "last full_chain = a_thought 99 ''idea''"
    by (simp add: full_chain_def last_map)
  have ne: "full_chain \<noteq> []"
    using length_full_chain by auto
  have t: "\<not> MAX_TOKENS < current_tokens full_chain + tokens ''idea''"
    by (simp add: current_tokens_full_chain MAX_TOKENS_def string_defs)
  have d: "MAX_DEPTH \<le> length (load_thoughts full_store ''s1'')"
    by (simp add: load_full_store length_full_chain MAX_DEPTH_def)
  have r: "add_thought a_model tick1 full_store ''s1'' ''idea'' None ''append'' =
             (Inl (ValueError ''Maximum depth reached''), full_store)"
    using t d by (simp add: add_thought_at_depth load_full_store)
  have c: "\<not> is_contradiction ''idea''"
    by (simp add: is_contradiction_def contradiction_keywords_def lower_def lower_char_def)
  have sim: "similarity a_model (text_of (last (load_thoughts full_store ''s1''))) ''idea''
               > duplicate_threshold"
    by (simp add: load_full_store la a_model_def a_thought_def similarity_def duplicate_threshold_def)
  show ?thesis
    using r c sim ne by (simp add: load_full_store a_model_def)
qed

text \<open>
  Claim C10, amended. Deduplication runs before the dispatch on the operation: for every
  operation and every \<^verbatim>\<open>branch_from\<close>, if the call passes the budget checks, the chain
  is non-empty, an embedding model is available, the text contains no contradiction keyword
  and its similarity to the last entry exceeds 0.92, then the call returns the last entry
  with a newline, \<^verbatim>\<open>[merged] \<close> and the text added to its text and its timestamp refreshed, and stores
  the chain with that entry in place of the last one: the length is unchanged (nothing is
  branched), all other entries are unchanged (nothing is revised) and no parent is recorded.
\<close>

theorem merge_before_dispatch:
  assumes w: "within_budgets (load_thoughts s sid) new_text"
      and ne: "load_thoughts s sid \<noteq> []"
      and em: "embed cfg \<noteq> None"
      and nc: "\<not> is_contradiction new_text"
      and sim: "similarity cfg (text_of (last (load_thoughts s sid))) new_text > duplicate_threshold"
  shows "add_thought cfg tk s sid new_text bf operation =
           (Inr ((last (load_thoughts s sid))
                   \<lparr>text_of := text_of (last (load_thoughts s sid)) @ [CHR 0x0A] @ ''[merged] '' @ new_text,
                    timestamp := now tk\<rparr>),
            save_thoughts s sid
              (butlast (load_thoughts s sid) @
               [(last (load_thoughts s sid))
                   \<lparr>text_of := text_of (last (load_thoughts s sid)) @ [CHR 0x0A] @ ''[merged] '' @ new_text,
                    timestamp := now tk\<rparr>])) \<and>
         load_thoughts (snd (add_thought cfg tk s sid new_text bf operation)) sid =
           butlast (load_thoughts s sid) @
           [(last (load_thoughts s sid))
               \<lparr>text_of := text_of (last (load_thoughts s sid)) @ [CHR 0x0A] @ ''[merged] '' @ new_text,
                timestamp := now tk\<rparr>] \<and>
         length (load_thoughts (snd (add_thought cfg tk s sid new_text bf operation)) sid) =
           length (load_thoughts s sid) \<and>
         map parent (load_thoughts (snd (add_thought cfg tk s sid new_text bf operation)) sid) =
           map parent (load_thoughts s sid)"
proof -
  let ?xs = "load_thoughts s sid"
  let ?m = "merged_last tk ?xs new_text"
  have m: "should_merge cfg ?xs new_text"
    using ne em nc sim by (simp add: should_merge_def)
  have r: "add_thought cfg tk s sid new_text bf operation =
             (Inr ?m, save_thoughts s sid (butlast ?xs @ [?m]))"
    by (rule add_thought_merge [OF w m])
  have st: "map step (butlast ?xs @ [?m]) = map step ?xs"
    unfolding merged_last_def using ne by (rule map_step_merge)
  have "sorted (map step (butlast ?xs @ [?m]))"
    by (simp only: st sorted_load_thoughts)
  then have l: "load_thoughts (save_thoughts s sid (butlast ?xs @ [?m])) sid = butlast ?xs @ [?m]"
    by (rule load_save_sorted)
  have pa: "map parent (butlast ?xs @ [?m]) = map parent ?xs"
    unfolding merged_last_def using ne by (rule map_parent_merge)
  have len: "length (butlast ?xs @ [?m]) = length ?xs"
    using ne by simp
  show ?thesis
    unfolding r snd_conv l pa len by (simp add: merged_last_def)
qed

theorem merge_before_dispatch_witness:
  "within_budgets (load_thoughts two_store ''s1'') ''beta'' \<and>
   load_thoughts two_store ''s1'' \<noteq> [] \<and> embed a_model \<noteq> None \<and> \<not> is_contradiction ''beta'' \<and>
   similarity a_model (text_of (last (load_thoughts two_store ''s1''))) ''beta'' > duplicate_threshold \<and>
   load_thoughts (snd (add_thought a_model tick2 two_store ''s1'' ''beta'' (Some 0) ''branch'')) ''s1'' =
     [a_thought 0 ''alpha'',
      (a_thought 1 ''beta'')\<lparr>text_of := ''beta'' @ [CHR 0x0A] @ ''[merged] beta'',
                               timestamp := 1700000060\<rparr>]"
proof -
  have l: "load_thoughts two_store ''s1'' = [a_thought 0 ''alpha'', a_thought 1 ''beta'']"
    by (simp add: load_two_store two_chain_def)
  have w: "within_budgets (load_thoughts two_store ''s1'') ''beta''"
    by (simp add: l within_budgets_def current_tokens_def a_thought_def MAX_TOKENS_def
        MAX_DEPTH_def string_defs)
  have ne: "load_thoughts two_store ''s1'' \<noteq> []"
    by (simp add: l)
  have em: "embed a_model \<noteq> None"
    by (simp add: a_model_def)
  have nc: "\<not> is_contradiction ''beta''"
    by (simp add: is_contradiction_def contradiction_keywords_def lower_def lower_char_def)
  have sim: "similarity a_model (text_of (last (load_thoughts two_store ''s1''))) ''beta'' > duplicate_threshold"
    by (simp add: l a_model_def a_thought_def similarity_def duplicate_threshold_def)
  show ?thesis
    using merge_before_dispatch [OF w ne em nc sim, of tick2 "Some 0" "''branch''",
        THEN conjunct2, THEN conjunct1] w ne em nc sim
    by (simp add: l tick2_def a_thought_def)
qed

subsection \<open>An absent index\<close>



subsection \<open>Contradiction markers\<close>

lemma starts_with_iff: "starts_with s k \<longleftrightarrow> (\<exists>post. s = k @ post)"
  by (induction s k rule: starts_with.induct) auto

lemma contains_iff: "contains s k \<longleftrightarrow> (\<exists>pre post. s = pre @ k @ post)"
proof (induction s)
  case Nil
  then show ?case by simp
next
  case (Cons c cs)
  have "(\<exists>pre post. c # cs = pre @ k @ post) \<longleftrightarrow>
        (\<exists>post. c # cs = k @ post) \<or> (\<exists>pre post. cs = pre @ k @ post)"
  proof
    assume "\<exists>pre post. c # cs = pre @ k @ post"
    then obtain pre post where e: "c # cs = pre @ k @ post" by blast
    show "(\<exists>post. c # cs = k @ post) \<or> (\<exists>pre post. cs = pre @ k @ post)"
    proof (cases pre)
      case Nil
      with e show ?thesis by auto
    next
      case (Cons p ps)
      with e have "cs = ps @ k @ post" by simp
      then show ?thesis by blast
    qed
  next
    assume "(\<exists>post. c # cs = k @ post) \<or> (\<exists>pre post. cs = pre @ k @ post)"
    then show "\<exists>pre post. c # cs = pre @ k @ post"
    proof
      assume "\<exists>post. c # cs = k @ post"
      then show ?thesis by (metis append_Nil)
    next
      assume "\<exists>pre post. cs = pre @ k @ post"
      then show ?thesis by (metis append_Cons)
    qed
  qed
  with Cons show ?case
    by (simp add: starts_with_iff del: starts_with.simps)
qed

lemma occurs_as_word_contains: "occurs_as_word b s k \<Longrightarrow> contains s k"
  by (induction s arbitrary: b) auto

lemma whole_word_is_contradiction: "whole_word_marker t \<Longrightarrow> is_contradiction t"
  by (auto simp add: whole_word_marker_def is_contradiction_def list_ex_iff
      intro: occurs_as_word_contains)

lemma is_contradiction_iff:
  "is_contradiction t \<longleftrightarrow>
     (\<exists>k \<in> set contradiction_keywords. \<exists>pre post. lower t = pre @ k @ post)"
  by (simp add: is_contradiction_def list_ex_iff contains_iff)

lemmas marker_defs = is_contradiction_def whole_word_marker_def contradiction_keywords_def
  lower_def lower_char_def is_word_char_def char_of_def bit_0

text \<open>
  Claim C4, as stated, fails: the keywords are searched as substrings of the lowercased text.
  \<^verbatim>\<open>this looks normal\<close> holds no keyword as a whole word, yet it holds \<^verbatim>\<open>no\<close>
  inside \<^verbatim>\<open>normal\<close>: appended to a chain whose last entry has the same text (similarity
  1 under the model), it becomes a new entry and is not merged.
\<close>

theorem contradiction_marker_counterexample:
  "\<not> whole_word_marker ''this looks normal'' \<and> is_contradiction ''this looks normal'' \<and>
   similarity a_model (text_of (last (load_thoughts normal_store ''s1''))) ''this looks normal''
     > duplicate_threshold \<and>
   load_thoughts (snd (add_thought a_model tick1 normal_store ''s1'' ''this looks normal'' None ''append''))
     ''s1'' =
     [a_thought 0 ''this looks normal'',
      \<lparr>step = 1, text_of = ''this looks normal'', timestamp = 1700000000, uuid = ''u1'',
       semantic_id = ''0'', confidence = 19 / 20, parent = None\<rparr>]"
proof -
  have l: "load_thoughts normal_store ''s1'' = [a_thought 0 ''this looks normal'']"
    by (simp add: normal_store_def mirrored_def load_thoughts_def manager_load_thoughts_def)
  have nw: "\<not> whole_word_marker ''this looks normal''"
    by (simp add: marker_defs)
  have c: "is_contradiction ''this looks normal''"
    by (simp add: marker_defs)
  have sim: "similarity a_model (text_of (last (load_thoughts normal_store ''s1''))) ''this looks normal''
               > duplicate_threshold"
    by (simp add: l a_model_def a_thought_def similarity_def duplicate_threshold_def)
  have w: "within_budgets (load_thoughts normal_store ''s1'') ''this looks normal''"
    by (simp add: l within_budgets_def current_tokens_def a_thought_def MAX_TOKENS_def
        MAX_DEPTH_def string_defs)
  have nm: "\<not> should_merge a_model (load_thoughts normal_store ''s1'') ''this looks normal''"
    using c by (simp add: should_merge_def)
  have "load_thoughts (snd (add_thought a_model tick1 normal_store ''s1'' ''this looks normal'' None ''append''))
     ''s1'' =
     [a_thought 0 ''this looks normal'',
      \<lparr>step = 1, text_of = ''this looks normal'', timestamp = 1700000000, uuid = ''u1'',
       semantic_id = ''0'', confidence = 19 / 20, parent = None\<rparr>]"
    unfolding add_thought_append [OF w nm disjI1 [OF refl]] l
    by (simp add: load_save_thoughts new_thought_def a_thought_def tick1_def a_model_def)
  with nw c sim show ?thesis by simp
qed

text \<open>
  Claim C4, amended. The contradiction markers are detected as case-insensitive substring
  matches: the text is flagged exactly when its lowercased form contains one of the
  keywords somewhere, which covers every whole-word occurrence and also an occurrence
  inside a longer word. For every append within the budgets whose text is flagged,
  deduplication is bypassed and a new entry is created, never merged.
\<close>

theorem contradiction_bypasses_dedup:
  "(is_contradiction new_text \<longleftrightarrow>
      (\<exists>k \<in> set contradiction_keywords. \<exists>pre post. lower new_text = pre @ k @ post)) \<and>
   (whole_word_marker new_text \<longrightarrow> is_contradiction new_text) \<and>
   (is_contradiction new_text \<and> within_budgets (load_thoughts s sid) new_text \<longrightarrow>
      add_thought cfg tk s sid new_text None ''append'' =
        (Inr (new_thought cfg tk (load_thoughts s sid) new_text),
         save_thoughts s sid (load_thoughts s sid @ [new_thought cfg tk (load_thoughts s sid) new_text])))"
proof (intro conjI impI)
  show "is_contradiction new_text \<longleftrightarrow>
      (\<exists>k \<in> set contradiction_keywords. \<exists>pre post. lower new_text = pre @ k @ post)"
    by (rule is_contradiction_iff)
next
  assume "whole_word_marker new_text"
  then show "is_contradiction new_text"
    by (rule whole_word_is_contradiction)
next
  assume "is_contradiction new_text \<and> within_budgets (load_thoughts s sid) new_text"
  then show "add_thought cfg tk s sid new_text None ''append'' =
        (Inr (new_thought cfg tk (load_thoughts s sid) new_text),
         save_thoughts s sid (load_thoughts s sid @ [new_thought cfg tk (load_thoughts s sid) new_text]))"
    by (simp add: add_thought_append should_merge_def)
qed

theorem contradiction_bypasses_dedup_witness:
  "whole_word_marker ''However, alpha'' \<and> is_contradiction ''However, alpha'' \<and>
   within_budgets (load_thoughts two_store ''s1'') ''However, alpha'' \<and>
   add_thought a_model tick1 two_store ''s1'' ''However, alpha'' None ''append'' =
     (Inr (new_thought a_model tick1 (load_thoughts two_store ''s1'') ''However, alpha''),
      save_thoughts two_store ''s1''
        (load_thoughts two_store ''s1'' @
         [new_thought a_model tick1 (load_thoughts two_store ''s1'') ''However, alpha'']))"
proof -
  have ww: "whole_word_marker ''However, alpha''"
    by (simp add: marker_defs)
  have w: "within_budgets (load_thoughts two_store ''s1'') ''However, alpha''"
    by (simp add: load_two_store two_chain_def within_budgets_def current_tokens_def a_thought_def
        MAX_TOKENS_def MAX_DEPTH_def string_defs)
  note t = contradiction_bypasses_dedup [of "''However, alpha''" two_store "''s1''" a_model tick1]
  have c: "is_contradiction ''However, alpha''"
    using t ww by blast
  show ?thesis
    using t ww w c by blast
qed

subsection \<open>Similarity without a model\<close>

lemma similarity_no_model: "embed cfg = None \<Longrightarrow> similarity cfg a b = jaccard_spec a b"
  by (simp add: similarity_def jaccard_spec_def Let_def Fract_of_int_quotient)

text \<open>
  Claim C1, as stated, fails: without an embedding model the duplicate check is skipped
  altogether. The candidate below has Jaccard similarity 1 to the last entry and no
  contradiction keyword, and it is appended as a new entry.
\<close>

theorem jaccard_merge_counterexample:
  "embed no_model = None \<and>
   load_thoughts one_store ''s1'' = [a_thought 0 ''Check the cache''] \<and>
   similarity no_model ''Check the cache'' ''check the CACHE'' = 1 \<and>
   duplicate_threshold < 1 \<and> \<not> is_contradiction ''check the CACHE'' \<and>
   load_thoughts (snd (add_thought no_model tick1 one_store ''s1'' ''check the CACHE'' None ''append''))
     ''s1'' =
     [a_thought 0 ''Check the cache'',
      \<lparr>step = 1, text_of = ''check the CACHE'', timestamp = 1700000000, uuid = ''u1'',
       semantic_id = ''0'', confidence = 19 / 20, parent = None\<rparr>]"
proof -
  have l: "load_thoughts one_store ''s1'' = [a_thought 0 ''Check the cache'']"
    by (simp add: one_store_def file_only_def load_thoughts_def manager_load_thoughts_def
        load_thoughts_from_file_def)
  have la: "lower ''Check the cache'' = ''check the cache''"
    and lb: "lower ''check the CACHE'' = ''check the cache''"
    by (simp_all add: lower_def lower_char_def char_of_def bit_0)
  have sp: "split_ws ''check the cache'' = [''check'', ''the'', ''cache'']"
    by (simp add: split_ws_def isspace_def)
  have sim: "similarity no_model ''Check the cache'' ''check the CACHE'' = 1"
    by (simp add: similarity_def no_model_def la lb sp card_insert_if)
  have c: "\<not> is_contradiction ''check the CACHE''"
    by (simp add: is_contradiction_def lb contradiction_keywords_def)
  have w: "within_budgets (load_thoughts one_store ''s1'') ''check the CACHE''"
    by (simp add: l within_budgets_def current_tokens_def a_thought_def MAX_TOKENS_def
        MAX_DEPTH_def tokens_def split_ws_def isspace_def)
  have nm: "\<not> should_merge no_model (load_thoughts one_store ''s1'') ''check the CACHE''"
    by (simp add: should_merge_def no_model_def)
  have "load_thoughts (snd (add_thought no_model tick1 one_store ''s1'' ''check the CACHE'' None ''append''))
     ''s1'' =
     [a_thought 0 ''Check the cache'',
      \<lparr>step = 1, text_of = ''check the CACHE'', timestamp = 1700000000, uuid = ''u1'',
       semantic_id = ''0'', confidence = 19 / 20, parent = None\<rparr>]"
    unfolding add_thought_append [OF w nm disjI1 [OF refl]] l
    by (simp add: load_save_thoughts new_thought_def a_thought_def tick1_def no_model_def)
  with l sim c show ?thesis
    by (simp add: no_model_def duplicate_threshold_def)
qed

text \<open>
  Claim C1, amended. When no sentence-embedding model is available, \<^verbatim>\<open>_similarity\<close> is
  the Jaccard similarity over the lowercased, whitespace-tokenized word sets, but
  \<^verbatim>\<open>_add_thought\<close> never consults it: the merge guard is false for every chain and
  text, and every append within the budgets adds the candidate as a new entry.
\<close>

theorem no_model_never_merges:
  assumes "embed cfg = None"
  shows "similarity cfg a b = jaccard_spec a b \<and>
         \<not> should_merge cfg thoughts new_text \<and>
         (within_budgets (load_thoughts s sid) new_text \<longrightarrow>
            add_thought cfg tk s sid new_text None ''append'' =
              (Inr (new_thought cfg tk (load_thoughts s sid) new_text),
               save_thoughts s sid
                 (load_thoughts s sid @ [new_thought cfg tk (load_thoughts s sid) new_text])))"
proof (intro conjI impI)
  show "similarity cfg a b = jaccard_spec a b"
    using assms by (rule similarity_no_model)
  show nm: "\<not> should_merge cfg thoughts new_text" for thoughts
    using assms by (simp add: should_merge_def)
  assume "within_budgets (load_thoughts s sid) new_text"
  then show "add_thought cfg tk s sid new_text None ''append'' =
      (Inr (new_thought cfg tk (load_thoughts s sid) new_text),
       save_thoughts s sid
         (load_thoughts s sid @ [new_thought cfg tk (load_thoughts s sid) new_text]))"
    using nm by (simp add: add_thought_append)
qed

theorem no_model_never_merges_witness:
  "embed no_model = None \<and>
   within_budgets (load_thoughts one_store ''s1'') ''check the cache'' \<and>
   jaccard_spec ''Check the cache'' ''check the cache'' = 1 \<and>
   similarity no_model ''Check the cache'' ''check the cache'' = 1 \<and>
   add_thought no_model tick2 one_store ''s1'' ''check the cache'' None ''append'' =
     (Inr (new_thought no_model tick2 (load_thoughts one_store ''s1'') ''check the cache''),
      save_thoughts one_store ''s1''
        (load_thoughts one_store ''s1'' @
         [new_thought no_model tick2 (load_thoughts one_store ''s1'') ''check the cache'']))"
proof -
  have e: "embed no_model = None"
    by (simp add: no_model_def)
  have l: "load_thoughts one_store ''s1'' = [a_thought 0 ''Check the cache'']"
    by (simp add: one_store_def file_only_def load_thoughts_def manager_load_thoughts_def
        load_thoughts_from_file_def)
  have w: "within_budgets (load_thoughts one_store ''s1'') ''check the cache''"
    by (simp add: l within_budgets_def current_tokens_def a_thought_def MAX_TOKENS_def
        MAX_DEPTH_def tokens_def split_ws_def isspace_def)
  have la: "lower ''Check the cache'' = ''check the cache''"
    and lb: "lower ''check the cache'' = ''check the cache''"
    by (simp_all add: lower_def lower_char_def char_of_def bit_0)
  have sp: "split_ws ''check the cache'' = [''check'', ''the'', ''cache'']"
    by (simp add: split_ws_def isspace_def)
  have j: "jaccard_spec ''Check the cache'' ''check the cache'' = 1"
    by (simp add: jaccard_spec_def la lb sp card_insert_if Fract_of_int_quotient)
  show ?thesis
    using no_model_never_merges [OF e, of "''Check the cache''" "''check the cache''"
        "[]" "''check the cache''" one_store "''s1''" tick2] e w j
    by simp
qed

subsection \<open>Clearing a session\<close>



text \<open>Where the primary backend has nothing for the session, clearing does empty it.\<close>

lemma clear_without_primary_copy:
  assumes "manager_load_thoughts s sid = []"
  shows "fst (sequential_review (snd (sequential_review s sid True)) sid False) =
           ''No thoughts recorded yet.''"
proof -
  have "manager_load_thoughts (s\<lparr>files := (files s)(sid := None)\<rparr>) sid = []"
    using assms by (simp add: manager_load_thoughts_def split: if_splits)
  then have "load_thoughts (s\<lparr>files := (files s)(sid := None)\<rparr>) sid = []"
    by (simp add: load_thoughts_def load_thoughts_from_file_def)
  then show ?thesis
    by (simp add: sequential_review_def format_thoughts_def)
qed

end
